theory Spec2Isabelle
  imports Main "HOL-Library.Sublist"
begin

section \<open>dashbrr: the autobrr handlers and the rate limiters of SetupRoutes\<close>

text \<open>
  A shallow embedding of \<^verbatim>\<open>backend/api/handlers/autobrr.go\<close> and of the rate
  limiter construction in \<^verbatim>\<open>SetupRoutes\<close>.  Every collaborator of the handlers
  that is not part of these files (the cache store, the configuration database, the
  autobrr service adapter) is a field of the handler: a function that gives the
  result of the call.  Every effect of the handlers (a call of a collaborator, a log
  line, the JSON response, a spawned goroutine) is an entry of a trace, in the order
  of the source.
\<close>

subsection \<open>Go values\<close>

text \<open>
  A Go \<^verbatim>\<open>error\<close> value.  The two sentinel errors of package \<^verbatim>\<open>context\<close> are compared
  by identity in the handlers (\<^verbatim>\<open>err == context.DeadlineExceeded\<close>); every other
  error is known to the handlers by its message only (\<^verbatim>\<open>err.Error()\<close>).
  A nil error is \<open>None\<close> of \<open>go_error option\<close>.
\<close>

datatype go_error = DeadlineExceeded | Canceled | Errorf string

fun Error :: "go_error \<Rightarrow> string" where
  "Error DeadlineExceeded = ''context deadline exceeded''"
| "Error Canceled = ''context canceled''"
| "Error (Errorf msg) = msg"

text \<open>A Go slice: \<^verbatim>\<open>nil\<close> (JSON \<^verbatim>\<open>null\<close>) differs from the empty slice (JSON \<^verbatim>\<open>[]\<close>).\<close>

datatype 'a slice = nil | Slice "'a list"

text \<open>\<^verbatim>\<open>time.Duration\<close>: a number of nanoseconds.\<close>

type_synonym Duration = int

definition Second :: Duration where
  "Second = 1000000000"

definition Minute :: Duration where
  "Minute = 60 * Second"

subsection \<open>Constants of autobrr.go\<close>

definition autobrrStatsCacheDuration :: Duration where
  "autobrrStatsCacheDuration = 10 * Second"

definition autobrrIRCCacheDuration :: Duration where
  "autobrrIRCCacheDuration = 5 * Second"

definition statsPrefix :: string where
  "statsPrefix = ''autobrr:stats:''"

definition ircPrefix :: string where
  "ircPrefix = ''autobrr:irc:''"

subsection \<open>The collaborators and the trace\<close>

text \<open>
  The fields of the service configuration that the handlers read
  (\<^verbatim>\<open>autobrrConfig.URL\<close>, \<^verbatim>\<open>autobrrConfig.APIKey\<close>).
\<close>

record ServiceConfiguration =
  URL :: string
  APIKey :: string

datatype level = DebugLevel | WarnLevel | ErrorLevel

text \<open>
  The body of a JSON response: \<^verbatim>\<open>gin.H{"error": msg}\<close>, an \<^verbatim>\<open>AutobrrStats\<close> value or a
  slice of \<^verbatim>\<open>IRCStatus\<close>.  The types \<^verbatim>\<open>AutobrrStats\<close> and \<^verbatim>\<open>IRCStatus\<close> are declared in
  package \<^verbatim>\<open>services/autobrr\<close>; they are the type parameters \<open>'s\<close> and \<open>'i\<close>, and the zero
  value \<^verbatim>\<open>AutobrrStats{}\<close> is \<open>0\<close> of class \<open>zero\<close>.
\<close>

datatype ('s, 'i) body = H_error string | StatsBody 's | IRCBody "'i slice"

text \<open>One entry for each effect of the handlers.\<close>

datatype ('s, 'i) effect =
    Cache_Get string
  | Cache_Set_stats string 's Duration
  | Cache_Set_irc string "'i slice" Duration
  | DB_GetServiceByInstanceID string
  | Service_GetReleaseStats string string
  | Service_GetIRCStatus string string
  | Log level string "go_error option"
  | JSON nat "('s, 'i) body"
  | Go_refreshStatsCache string string
  | Go_refreshIRCCache string string

text \<open>
  \<^verbatim>\<open>AutobrrHandler\<close> with its collaborators.  \<open>'c\<close> is the state of the cache store.
  A Go function that returns \<^verbatim>\<open>(value, error)\<close> returns a pair here; \<^verbatim>\<open>cache.Get\<close>
  writes through its pointer argument, which is the first component of its result.
\<close>

record ('c, 's, 'i) AutobrrHandler =
  db_GetServiceByInstanceID :: "string \<Rightarrow> ServiceConfiguration option \<times> go_error option"
  cache_Get_stats :: "'c \<Rightarrow> string \<Rightarrow> ('s \<times> go_error option) \<times> 'c"
  cache_Get_irc :: "'c \<Rightarrow> string \<Rightarrow> ('i slice \<times> go_error option) \<times> 'c"
  cache_Set_stats :: "'c \<Rightarrow> string \<Rightarrow> 's \<Rightarrow> Duration \<Rightarrow> go_error option \<times> 'c"
  cache_Set_irc :: "'c \<Rightarrow> string \<Rightarrow> 'i slice \<Rightarrow> Duration \<Rightarrow> go_error option \<times> 'c"
  service_GetReleaseStats :: "string \<Rightarrow> string \<Rightarrow> 's \<times> go_error option"
  service_GetIRCStatus :: "string \<Rightarrow> string \<Rightarrow> 'i slice \<times> go_error option"

text \<open>
  \<^verbatim>\<open>c.Query(key)\<close>: the value of the query parameter, or the empty string when the
  request has no such parameter.
\<close>

definition Query :: "(string \<rightharpoonup> string) \<Rightarrow> string \<Rightarrow> string" where
  "Query req key = (case req key of None \<Rightarrow> [] | Some v \<Rightarrow> v)"

subsection \<open>fetchAndCacheStats and fetchAndCacheIRC\<close>

text \<open>
  The result is the returned pair \<^verbatim>\<open>(payload, error)\<close>, the state of the cache store
  after the call, and the trace of the call.
\<close>

definition fetchAndCacheStats ::
  "('c, 's::zero, 'i) AutobrrHandler \<Rightarrow> 'c \<Rightarrow> string \<Rightarrow> string
    \<Rightarrow> ('s \<times> go_error option) \<times> 'c \<times> ('s, 'i) effect list" where
  "fetchAndCacheStats h c instanceId cacheKey =
    (case db_GetServiceByInstanceID h instanceId of (autobrrConfig, err) \<Rightarrow>
      if err \<noteq> None then ((0, err), c, [DB_GetServiceByInstanceID instanceId])
      else if autobrrConfig = None \<or> URL (the autobrrConfig) = [] then
        ((0, Some (Errorf ''service not configured'')), c,
         [DB_GetServiceByInstanceID instanceId])
      else
        (case service_GetReleaseStats h (URL (the autobrrConfig)) (APIKey (the autobrrConfig)) of
          (stats, err) \<Rightarrow>
            if err \<noteq> None then
              ((0, err), c,
               [DB_GetServiceByInstanceID instanceId,
                Service_GetReleaseStats (URL (the autobrrConfig)) (APIKey (the autobrrConfig))])
            else
              (case cache_Set_stats h c cacheKey stats autobrrStatsCacheDuration of
                (err, c') \<Rightarrow>
                  ((stats, None), c',
                   [DB_GetServiceByInstanceID instanceId,
                    Service_GetReleaseStats (URL (the autobrrConfig)) (APIKey (the autobrrConfig)),
                    Cache_Set_stats cacheKey stats autobrrStatsCacheDuration]
                   @ (if err \<noteq> None
                      then [Log WarnLevel ''Failed to cache Autobrr release stats'' err]
                      else [])))))"

definition fetchAndCacheIRC ::
  "('c, 's, 'i) AutobrrHandler \<Rightarrow> 'c \<Rightarrow> string \<Rightarrow> string
    \<Rightarrow> ('i slice \<times> go_error option) \<times> 'c \<times> ('s, 'i) effect list" where
  "fetchAndCacheIRC h c instanceId cacheKey =
    (case db_GetServiceByInstanceID h instanceId of (autobrrConfig, err) \<Rightarrow>
      if err \<noteq> None then ((nil, err), c, [DB_GetServiceByInstanceID instanceId])
      else if autobrrConfig = None \<or> URL (the autobrrConfig) = [] then
        ((nil, Some (Errorf ''service not configured'')), c,
         [DB_GetServiceByInstanceID instanceId])
      else
        (case service_GetIRCStatus h (URL (the autobrrConfig)) (APIKey (the autobrrConfig)) of
          (status, err) \<Rightarrow>
            if err \<noteq> None then
              ((nil, err), c,
               [DB_GetServiceByInstanceID instanceId,
                Service_GetIRCStatus (URL (the autobrrConfig)) (APIKey (the autobrrConfig))])
            else
              (case cache_Set_irc h c cacheKey status autobrrIRCCacheDuration of
                (err, c') \<Rightarrow>
                  ((status, None), c',
                   [DB_GetServiceByInstanceID instanceId,
                    Service_GetIRCStatus (URL (the autobrrConfig)) (APIKey (the autobrrConfig)),
                    Cache_Set_irc cacheKey status autobrrIRCCacheDuration]
                   @ (if err \<noteq> None
                      then [Log WarnLevel ''Failed to cache Autobrr IRC status'' err]
                      else [])))))"

subsection \<open>The handlers\<close>

text \<open>
  The result of a handler is the state of the cache store after the call and the trace
  of the call.  The goroutine started by \<^verbatim>\<open>go h.refreshStatsCache(instanceId, cacheKey)\<close>
  is the entry \<open>Go_refreshStatsCache instanceId cacheKey\<close>: the handler returns without
  running it.
\<close>

definition GetAutobrrReleaseStats ::
  "('c, 's::zero, 'i) AutobrrHandler \<Rightarrow> 'c \<Rightarrow> (string \<rightharpoonup> string) \<Rightarrow> 'c \<times> ('s, 'i) effect list" where
  "GetAutobrrReleaseStats h c req =
    (let instanceId = Query req ''instanceId'' in
     if instanceId = [] then
       (c, [Log ErrorLevel ''No instance ID provided'' None,
            JSON 400 (H_error ''Instance ID is required'')])
     else
       (let cacheKey = statsPrefix @ instanceId in
        case cache_Get_stats h c cacheKey of ((stats, err), c1) \<Rightarrow>
          if err = None then
            (c1, [Cache_Get cacheKey,
                  Log DebugLevel ''Serving Autobrr release stats from cache'' None,
                  JSON 200 (StatsBody stats),
                  Go_refreshStatsCache instanceId cacheKey])
          else
            (case fetchAndCacheStats h c1 instanceId cacheKey of ((stats, err), c2, tr) \<Rightarrow>
              if err \<noteq> None then
                (if Error (the err) = ''service not configured'' then
                   (c2, Cache_Get cacheKey # tr @ [JSON 200 (StatsBody 0)])
                 else if the err = DeadlineExceeded \<or> the err = Canceled then
                   (c2, Cache_Get cacheKey # tr @
                     [Log ErrorLevel ''Request timeout while fetching Autobrr stats'' err,
                      JSON 504 (H_error (Error (the err)))])
                 else
                   (c2, Cache_Get cacheKey # tr @
                     [Log ErrorLevel ''Failed to fetch Autobrr stats'' err,
                      JSON 500 (H_error (Error (the err)))]))
              else
                (c2, Cache_Get cacheKey # tr @
                  [Log DebugLevel ''Successfully retrieved and cached autobrr release stats'' None,
                   JSON 200 (StatsBody stats)]))))"

definition GetAutobrrIRCStatus ::
  "('c, 's, 'i) AutobrrHandler \<Rightarrow> 'c \<Rightarrow> (string \<rightharpoonup> string) \<Rightarrow> 'c \<times> ('s, 'i) effect list" where
  "GetAutobrrIRCStatus h c req =
    (let instanceId = Query req ''instanceId'' in
     if instanceId = [] then
       (c, [Log ErrorLevel ''No instance ID provided'' None,
            JSON 400 (H_error ''Instance ID is required'')])
     else
       (let cacheKey = ircPrefix @ instanceId in
        case cache_Get_irc h c cacheKey of ((status, err), c1) \<Rightarrow>
          if err = None then
            (c1, [Cache_Get cacheKey,
                  Log DebugLevel ''Serving Autobrr IRC status from cache'' None,
                  JSON 200 (IRCBody status),
                  Go_refreshIRCCache instanceId cacheKey])
          else
            (case fetchAndCacheIRC h c1 instanceId cacheKey of ((status, err), c2, tr) \<Rightarrow>
              if err \<noteq> None then
                (if Error (the err) = ''service not configured'' then
                   (c2, Cache_Get cacheKey # tr @ [JSON 200 (IRCBody (Slice []))])
                 else if the err = DeadlineExceeded \<or> the err = Canceled then
                   (c2, Cache_Get cacheKey # tr @
                     [Log ErrorLevel ''Request timeout while fetching Autobrr IRC status'' err,
                      JSON 504 (H_error (Error (the err)))])
                 else
                   (c2, Cache_Get cacheKey # tr @
                     [Log ErrorLevel ''Failed to fetch Autobrr IRC status'' err,
                      JSON 500 (H_error (Error (the err)))]))
              else
                (c2, Cache_Get cacheKey # tr @
                  [Log DebugLevel ''Successfully retrieved and cached Autobrr IRC status'' None,
                   JSON 200 (IRCBody status)]))))"

subsection \<open>The background refresh\<close>

text \<open>The body of the goroutine that a cache hit starts.\<close>

definition refreshStatsCache ::
  "('c, 's::zero, 'i) AutobrrHandler \<Rightarrow> 'c \<Rightarrow> string \<Rightarrow> string \<Rightarrow> 'c \<times> ('s, 'i) effect list" where
  "refreshStatsCache h c instanceId cacheKey =
    (case fetchAndCacheStats h c instanceId cacheKey of ((stats, err), c', tr) \<Rightarrow>
      if err \<noteq> None \<and> Error (the err) \<noteq> ''service not configured'' then
        (c', tr @ [Log ErrorLevel ''Failed to refresh Autobrr release stats cache'' err])
      else
        (c', tr @ [Log DebugLevel ''Successfully refreshed Autobrr release stats cache'' None]))"

definition refreshIRCCache ::
  "('c, 's, 'i) AutobrrHandler \<Rightarrow> 'c \<Rightarrow> string \<Rightarrow> string \<Rightarrow> 'c \<times> ('s, 'i) effect list" where
  "refreshIRCCache h c instanceId cacheKey =
    (case fetchAndCacheIRC h c instanceId cacheKey of ((status, err), c', tr) \<Rightarrow>
      if err \<noteq> None \<and> Error (the err) \<noteq> ''service not configured'' then
        (c', tr @ [Log ErrorLevel ''Failed to refresh autobrr IRC status cache'' err])
      else
        (c', tr @ [Log DebugLevel ''Successfully refreshed autobrr IRC status cache'' None]))"

subsection \<open>Reading a trace\<close>

text \<open>The JSON responses written during a call, in order.\<close>

fun responses :: "('s, 'i) effect list \<Rightarrow> (nat \<times> ('s, 'i) body) list" where
  "responses [] = []"
| "responses (JSON status b # tr) = (status, b) # responses tr"
| "responses (_ # tr) = responses tr"

text \<open>The keys of the calls of the cache store, in order.\<close>

fun cache_keys :: "('s, 'i) effect list \<Rightarrow> string list" where
  "cache_keys [] = []"
| "cache_keys (Cache_Get k # tr) = k # cache_keys tr"
| "cache_keys (Cache_Set_stats k v d # tr) = k # cache_keys tr"
| "cache_keys (Cache_Set_irc k v d # tr) = k # cache_keys tr"
| "cache_keys (_ # tr) = cache_keys tr"

text \<open>The expirations passed to \<^verbatim>\<open>cache.Set\<close> for release statistics, and for IRC status.\<close>

fun stats_ttls :: "('s, 'i) effect list \<Rightarrow> Duration list" where
  "stats_ttls [] = []"
| "stats_ttls (Cache_Set_stats k v d # tr) = d # stats_ttls tr"
| "stats_ttls (_ # tr) = stats_ttls tr"

fun irc_ttls :: "('s, 'i) effect list \<Rightarrow> Duration list" where
  "irc_ttls [] = []"
| "irc_ttls (Cache_Set_irc k v d # tr) = d # irc_ttls tr"
| "irc_ttls (_ # tr) = irc_ttls tr"

text \<open>The effects that are a \<^verbatim>\<open>cache.Set\<close>; the effects that consult a collaborator.\<close>

fun is_Cache_Set :: "('s, 'i) effect \<Rightarrow> bool" where
  "is_Cache_Set (Cache_Set_stats k v d) = True"
| "is_Cache_Set (Cache_Set_irc k v d) = True"
| "is_Cache_Set _ = False"

fun consults :: "('s, 'i) effect \<Rightarrow> bool" where
  "consults (Cache_Get k) = True"
| "consults (Cache_Set_stats k v d) = True"
| "consults (Cache_Set_irc k v d) = True"
| "consults (DB_GetServiceByInstanceID i) = True"
| "consults (Service_GetReleaseStats u a) = True"
| "consults (Service_GetIRCStatus u a) = True"
| "consults _ = False"

text \<open>The goroutines started during a call.\<close>

fun is_Go :: "('s, 'i) effect \<Rightarrow> bool" where
  "is_Go (Go_refreshStatsCache i k) = True"
| "is_Go (Go_refreshIRCCache i k) = True"
| "is_Go _ = False"

subsection \<open>The rate limiters of SetupRoutes\<close>

text \<open>
  Modelled from the spec: \<^verbatim>\<open>middleware.NewRateLimiter\<close> is not among the source files.
  The spec describes a limiter as a sliding window of fixed duration and a maximum
  count, with keys of its own; the limiter is the record of the arguments that
  \<^verbatim>\<open>SetupRoutes\<close> passes to the constructor.
\<close>

record 'c RateLimiter =
  store :: 'c
  window :: Duration
  limit :: int
  keyPrefix :: string

definition NewRateLimiter :: "'c \<Rightarrow> Duration \<Rightarrow> int \<Rightarrow> string \<Rightarrow> 'c RateLimiter" where
  "NewRateLimiter st w n p = \<lparr>store = st, window = w, limit = n, keyPrefix = p\<rparr>"

text \<open>The four limiters that \<^verbatim>\<open>SetupRoutes\<close> constructs, named as its local variables.\<close>

definition apiRateLimiter :: "'c \<Rightarrow> 'c RateLimiter" where
  "apiRateLimiter st = NewRateLimiter st Minute 60 ''api:''"

definition healthRateLimiter :: "'c \<Rightarrow> 'c RateLimiter" where
  "healthRateLimiter st = NewRateLimiter st Minute 30 ''health:''"

definition authRateLimiter :: "'c \<Rightarrow> 'c RateLimiter" where
  "authRateLimiter st = NewRateLimiter st Minute 30 ''auth:''"

definition tailscaleRateLimiter :: "'c \<Rightarrow> 'c RateLimiter" where
  "tailscaleRateLimiter st = NewRateLimiter st (2 * Minute) 20 ''tailscale:''"

subsection \<open>A cache store and collaborators to run the handlers on\<close>

text \<open>
  Modelled from the spec: the cache store (package \<^verbatim>\<open>services/cache\<close>) is not among the
  source files.  An entry has a value, the time it was stored and the time it expires;
  an entry past its expiry is absent; \<^verbatim>\<open>Set\<close> overwrites unconditionally.  The clock is
  the field \<open>now\<close>.  \<^verbatim>\<open>Get\<close> reports a stored value of the other kind as an error.
\<close>

record ('s, 'i) CacheEntry =
  entry_value :: "('s, 'i) body"
  storedAt :: int
  expiresAt :: int

record ('s, 'i) MemoryStore =
  now :: int
  entries :: "string \<rightharpoonup> ('s, 'i) CacheEntry"

definition NewMemoryStore :: "int \<Rightarrow> ('s, 'i) MemoryStore" where
  "NewMemoryStore t = \<lparr>now = t, entries = Map.empty\<rparr>"

definition mem_lookup :: "('s, 'i) MemoryStore \<Rightarrow> string \<Rightarrow> ('s, 'i) body option" where
  "mem_lookup st k =
    (case entries st k of
       None \<Rightarrow> None
     | Some e \<Rightarrow> if now st \<le> expiresAt e then Some (entry_value e) else None)"

definition mem_Get_stats ::
  "('s::zero, 'i) MemoryStore \<Rightarrow> string \<Rightarrow> ('s \<times> go_error option) \<times> ('s, 'i) MemoryStore" where
  "mem_Get_stats st k =
    (case mem_lookup st k of
       Some (StatsBody v) \<Rightarrow> ((v, None), st)
     | Some _ \<Rightarrow> ((0, Some (Errorf ''cannot unmarshal'')), st)
     | None \<Rightarrow> ((0, Some (Errorf ''cache miss'')), st))"

definition mem_Get_irc ::
  "('s, 'i) MemoryStore \<Rightarrow> string \<Rightarrow> ('i slice \<times> go_error option) \<times> ('s, 'i) MemoryStore" where
  "mem_Get_irc st k =
    (case mem_lookup st k of
       Some (IRCBody v) \<Rightarrow> ((v, None), st)
     | Some _ \<Rightarrow> ((nil, Some (Errorf ''cannot unmarshal'')), st)
     | None \<Rightarrow> ((nil, Some (Errorf ''cache miss'')), st))"

definition mem_Set ::
  "('s, 'i) MemoryStore \<Rightarrow> string \<Rightarrow> ('s, 'i) body \<Rightarrow> Duration
    \<Rightarrow> go_error option \<times> ('s, 'i) MemoryStore" where
  "mem_Set st k v ttl =
    (None, st\<lparr>entries := (entries st)
       (k \<mapsto> \<lparr>entry_value = v, storedAt = now st, expiresAt = now st + ttl\<rparr>)\<rparr>)"

text \<open>The age of the entry under a key, when there is one.\<close>

definition entry_age :: "('s, 'i) MemoryStore \<Rightarrow> string \<Rightarrow> int option" where
  "entry_age st k = (case entries st k of None \<Rightarrow> None | Some e \<Rightarrow> Some (now st - storedAt e))"

text \<open>
  A handler on the memory store.  Its database and its adapter are arguments; the
  payload types are \<open>nat\<close> for the statistics and \<open>string\<close> for an IRC status.
\<close>

definition memHandler ::
  "(string \<Rightarrow> ServiceConfiguration option \<times> go_error option)
    \<Rightarrow> (string \<Rightarrow> string \<Rightarrow> nat \<times> go_error option)
    \<Rightarrow> (string \<Rightarrow> string \<Rightarrow> string slice \<times> go_error option)
    \<Rightarrow> ((nat, string) MemoryStore, nat, string) AutobrrHandler" where
  "memHandler db stats irc =
    \<lparr>db_GetServiceByInstanceID = db,
     cache_Get_stats = mem_Get_stats,
     cache_Get_irc = mem_Get_irc,
     cache_Set_stats = (\<lambda>st k v ttl. mem_Set st k (StatsBody v) ttl),
     cache_Set_irc = (\<lambda>st k v ttl. mem_Set st k (IRCBody v) ttl),
     service_GetReleaseStats = stats,
     service_GetIRCStatus = irc\<rparr>"

text \<open>The same handler on a store whose every call fails: the backend is unreachable.\<close>

definition brokenHandler ::
  "(string \<Rightarrow> ServiceConfiguration option \<times> go_error option)
    \<Rightarrow> (string \<Rightarrow> string \<Rightarrow> nat \<times> go_error option)
    \<Rightarrow> (string \<Rightarrow> string \<Rightarrow> string slice \<times> go_error option)
    \<Rightarrow> ((nat, string) MemoryStore, nat, string) AutobrrHandler" where
  "brokenHandler db stats irc =
    \<lparr>db_GetServiceByInstanceID = db,
     cache_Get_stats = (\<lambda>st k. ((0, Some (Errorf ''connection refused'')), st)),
     cache_Get_irc = (\<lambda>st k. ((nil, Some (Errorf ''connection refused'')), st)),
     cache_Set_stats = (\<lambda>st k v ttl. (Some (Errorf ''connection refused''), st)),
     cache_Set_irc = (\<lambda>st k v ttl. (Some (Errorf ''connection refused''), st)),
     service_GetReleaseStats = stats,
     service_GetIRCStatus = irc\<rparr>"

text \<open>
  Databases: one with a configured instance \<open>a\<close> and an instance \<open>b\<close> whose URL is
  empty; one with no record at all; one whose lookup fails.
\<close>

definition db_configured :: "string \<Rightarrow> ServiceConfiguration option \<times> go_error option" where
  "db_configured i =
    (if i = ''a'' then (Some \<lparr>URL = ''http://autobrr:7474'', APIKey = ''key''\<rparr>, None)
     else if i = ''b'' then (Some \<lparr>URL = [], APIKey = []\<rparr>, None)
     else (None, None))"

definition db_empty :: "string \<Rightarrow> ServiceConfiguration option \<times> go_error option" where
  "db_empty i = (None, None)"

definition db_failing :: "string \<Rightarrow> ServiceConfiguration option \<times> go_error option" where
  "db_failing i = (None, Some (Errorf ''database is locked''))"

text \<open>
  Adapters: one that answers, one that times out (and returns a partly filled
  payload with the error), one that fails otherwise.
\<close>

definition stats_ok :: "string \<Rightarrow> string \<Rightarrow> nat \<times> go_error option" where
  "stats_ok url key = (42, None)"

definition irc_ok :: "string \<Rightarrow> string \<Rightarrow> string slice \<times> go_error option" where
  "irc_ok url key = (Slice [''irc.example.org''], None)"

definition stats_timeout :: "string \<Rightarrow> string \<Rightarrow> nat \<times> go_error option" where
  "stats_timeout url key = (7, Some DeadlineExceeded)"

definition irc_timeout :: "string \<Rightarrow> string \<Rightarrow> string slice \<times> go_error option" where
  "irc_timeout url key = (Slice [''partial''], Some Canceled)"

definition stats_failing :: "string \<Rightarrow> string \<Rightarrow> nat \<times> go_error option" where
  "stats_failing url key = (7, Some (Errorf ''unexpected status 502''))"

definition irc_failing :: "string \<Rightarrow> string \<Rightarrow> string slice \<times> go_error option" where
  "irc_failing url key = (Slice [''partial''], Some (Errorf ''unexpected status 502''))"

text \<open>The requests \<^verbatim>\<open>?instanceId=a\<close>, \<^verbatim>\<open>?instanceId=b\<close>, \<^verbatim>\<open>?instanceId=\<close> and one with no parameter.\<close>

definition req_a :: "string \<rightharpoonup> string" where
  "req_a = [''instanceId'' \<mapsto> ''a'']"

definition req_b :: "string \<rightharpoonup> string" where
  "req_b = [''instanceId'' \<mapsto> ''b'']"

definition req_blank :: "string \<rightharpoonup> string" where
  "req_blank = [''instanceId'' \<mapsto> []]"

definition req_none :: "string \<rightharpoonup> string" where
  "req_none = Map.empty"

text \<open>
  The store after a first request for the statistics, and for the IRC status, of the
  configured instance \<open>a\<close> at time 0 on an empty store.
\<close>

definition store_after_stats :: "(nat, string) MemoryStore" where
  "store_after_stats =
    fst (GetAutobrrReleaseStats (memHandler db_configured stats_ok irc_ok) (NewMemoryStore 0) req_a)"

definition store_after_irc :: "(nat, string) MemoryStore" where
  "store_after_irc =
    fst (GetAutobrrIRCStatus (memHandler db_configured stats_ok irc_ok) (NewMemoryStore 0) req_a)"

section \<open>Properties\<close>

subsection \<open>Traces of the two fetch functions\<close>

lemma responses_append: "responses (xs @ ys) = responses xs @ responses ys"
  by (induction xs rule: responses.induct) simp_all

lemma cache_keys_append: "cache_keys (xs @ ys) = cache_keys xs @ cache_keys ys"
  by (induction xs rule: cache_keys.induct) simp_all

lemma stats_ttls_append: "stats_ttls (xs @ ys) = stats_ttls xs @ stats_ttls ys"
  by (induction xs rule: stats_ttls.induct) simp_all

lemma irc_ttls_append: "irc_ttls (xs @ ys) = irc_ttls xs @ irc_ttls ys"
  by (induction xs rule: irc_ttls.induct) simp_all

lemma responses_fetchAndCacheStats:
  "responses (snd (snd (fetchAndCacheStats h c i k))) = []"
  by (simp add: fetchAndCacheStats_def split: prod.splits)

lemma responses_fetchAndCacheIRC:
  "responses (snd (snd (fetchAndCacheIRC h c i k))) = []"
  by (simp add: fetchAndCacheIRC_def split: prod.splits)

lemma cache_keys_fetchAndCacheStats:
  "set (cache_keys (snd (snd (fetchAndCacheStats h c i k)))) \<subseteq> {k}"
  by (simp add: fetchAndCacheStats_def split: prod.splits)

lemma cache_keys_fetchAndCacheIRC:
  "set (cache_keys (snd (snd (fetchAndCacheIRC h c i k)))) \<subseteq> {k}"
  by (simp add: fetchAndCacheIRC_def split: prod.splits)

lemma stats_key_used:
  assumes "Query req ''instanceId'' \<noteq> []"
  shows "set (cache_keys (snd (GetAutobrrReleaseStats h c req))) = {statsPrefix @ Query req ''instanceId''}"
proof -
  let ?i = "Query req ''instanceId''"
  let ?k = "statsPrefix @ ?i"
  obtain v ge c1 where g: "cache_Get_stats h c ?k = ((v, ge), c1)"
    by (metis prod.exhaust)
  obtain p err c2 tr where f: "fetchAndCacheStats h c1 ?i ?k = ((p, err), c2, tr)"
    by (metis prod.exhaust)
  from cache_keys_fetchAndCacheStats [of h c1 ?i ?k] f have "set (cache_keys tr) \<subseteq> {?k}"
    by simp
  then show ?thesis
    using assms g f by (auto simp: GetAutobrrReleaseStats_def Let_def cache_keys_append)
qed


lemma irc_key_used:
  assumes "Query req ''instanceId'' \<noteq> []"
  shows "set (cache_keys (snd (GetAutobrrIRCStatus h c req))) = {ircPrefix @ Query req ''instanceId''}"
proof -
  let ?i = "Query req ''instanceId''"
  let ?k = "ircPrefix @ ?i"
  obtain v ge c1 where g: "cache_Get_irc h c ?k = ((v, ge), c1)"
    by (metis prod.exhaust)
  obtain p err c2 tr where f: "fetchAndCacheIRC h c1 ?i ?k = ((p, err), c2, tr)"
    by (metis prod.exhaust)
  from cache_keys_fetchAndCacheIRC [of h c1 ?i ?k] f have "set (cache_keys tr) \<subseteq> {?k}"
    by simp
  then show ?thesis
    using assms g f by (auto simp: GetAutobrrIRCStatus_def Let_def cache_keys_append)
qed

lemma prefixes_differ: "statsPrefix @ a \<noteq> ircPrefix @ b"
  by (simp add: statsPrefix_def ircPrefix_def)

lemmas run_defs =
  GetAutobrrReleaseStats_def GetAutobrrIRCStatus_def fetchAndCacheStats_def fetchAndCacheIRC_def
  memHandler_def brokenHandler_def mem_Get_stats_def mem_Get_irc_def mem_Set_def mem_lookup_def
  NewMemoryStore_def Query_def req_a_def req_b_def req_blank_def req_none_def
  db_configured_def db_empty_def db_failing_def stats_ok_def irc_ok_def stats_timeout_def
  irc_timeout_def stats_failing_def irc_failing_def statsPrefix_def ircPrefix_def
  autobrrStatsCacheDuration_def autobrrIRCCacheDuration_def Second_def Let_def

subsection \<open>Cache keys\<close>

text \<open>
  C6.  The statistics handler calls the cache store under the key
  \<open>"autobrr:stats:"\<close> followed by the instance identifier and under no other key, the
  IRC handler under \<open>"autobrr:irc:"\<close> followed by the identifier and under no other key.
  A statistics key never equals an IRC key, whatever the two identifiers, and the keys
  of two distinct identifiers in the same category are distinct.
\<close>

theorem cache_keys_by_category:
  "statsPrefix = ''autobrr:stats:'' \<and> ircPrefix = ''autobrr:irc:''
   \<and> (Query req ''instanceId'' \<noteq> [] \<longrightarrow>
        set (cache_keys (snd (GetAutobrrReleaseStats h c req)))
          = {statsPrefix @ Query req ''instanceId''}
        \<and> set (cache_keys (snd (GetAutobrrIRCStatus h c req)))
          = {ircPrefix @ Query req ''instanceId''})
   \<and> statsPrefix @ a \<noteq> ircPrefix @ b
   \<and> (a \<noteq> b \<longrightarrow> statsPrefix @ a \<noteq> statsPrefix @ b \<and> ircPrefix @ a \<noteq> ircPrefix @ b)"
proof -
  have "statsPrefix = ''autobrr:stats:''" "ircPrefix = ''autobrr:irc:''"
    by (simp_all only: statsPrefix_def ircPrefix_def)
  moreover have "a \<noteq> b \<longrightarrow> statsPrefix @ a \<noteq> statsPrefix @ b \<and> ircPrefix @ a \<noteq> ircPrefix @ b"
    by simp
  ultimately show ?thesis
    using stats_key_used [of req h c] irc_key_used [of req h c] prefixes_differ [of a b]
    by blast
qed


theorem cache_keys_by_category_witness:
  "Query req_a ''instanceId'' \<noteq> []
   \<and> set (cache_keys (snd (GetAutobrrReleaseStats (memHandler db_configured stats_ok irc_ok)
        (NewMemoryStore 0) req_a))) = {''autobrr:stats:a''}
   \<and> set (cache_keys (snd (GetAutobrrIRCStatus (memHandler db_configured stats_ok irc_ok)
        (NewMemoryStore 0) req_a))) = {''autobrr:irc:a''}
   \<and> ''a'' \<noteq> ''b''
   \<and> ''autobrr:stats:a'' \<noteq> ''autobrr:stats:b'' \<and> ''autobrr:irc:a'' \<noteq> ''autobrr:irc:b''
   \<and> ''autobrr:stats:a'' \<noteq> ''autobrr:irc:b''"
proof -
  have q: "Query req_a ''instanceId'' = ''a''"
    by (simp add: Query_def req_a_def)
  have d: "''a'' \<noteq> ''b''"
    by simp
  show ?thesis
    using cache_keys_by_category [of req_a "memHandler db_configured stats_ok irc_ok"
        "NewMemoryStore 0" "''a''" "''b''"] q d
    by (simp add: statsPrefix_def ircPrefix_def)
qed

subsection \<open>The handlers on a hit and on a miss\<close>

lemma GetAutobrrReleaseStats_hit:
  assumes "Query req ''instanceId'' \<noteq> []"
    and "cache_Get_stats h c (statsPrefix @ Query req ''instanceId'') = ((v, None), c1)"
  shows "GetAutobrrReleaseStats h c req =
    (c1, [Cache_Get (statsPrefix @ Query req ''instanceId''),
          Log DebugLevel ''Serving Autobrr release stats from cache'' None,
          JSON 200 (StatsBody v),
          Go_refreshStatsCache (Query req ''instanceId'') (statsPrefix @ Query req ''instanceId'')])"
  using assms by (simp add: GetAutobrrReleaseStats_def Let_def)

lemma GetAutobrrIRCStatus_hit:
  assumes "Query req ''instanceId'' \<noteq> []"
    and "cache_Get_irc h c (ircPrefix @ Query req ''instanceId'') = ((v, None), c1)"
  shows "GetAutobrrIRCStatus h c req =
    (c1, [Cache_Get (ircPrefix @ Query req ''instanceId''),
          Log DebugLevel ''Serving Autobrr IRC status from cache'' None,
          JSON 200 (IRCBody v),
          Go_refreshIRCCache (Query req ''instanceId'') (ircPrefix @ Query req ''instanceId'')])"
  using assms by (simp add: GetAutobrrIRCStatus_def Let_def)

lemma GetAutobrrReleaseStats_miss:
  assumes "Query req ''instanceId'' \<noteq> []"
    and "cache_Get_stats h c (statsPrefix @ Query req ''instanceId'') = ((v, Some ge), c1)"
    and "fetchAndCacheStats h c1 (Query req ''instanceId'') (statsPrefix @ Query req ''instanceId'')
          = ((p, err), c2, tr)"
  shows "GetAutobrrReleaseStats h c req =
    (c2, Cache_Get (statsPrefix @ Query req ''instanceId'') # tr @
      (case err of
         None \<Rightarrow> [Log DebugLevel ''Successfully retrieved and cached autobrr release stats'' None,
                   JSON 200 (StatsBody p)]
       | Some e \<Rightarrow>
           if Error e = ''service not configured'' then [JSON 200 (StatsBody 0)]
           else if e = DeadlineExceeded \<or> e = Canceled then
             [Log ErrorLevel ''Request timeout while fetching Autobrr stats'' (Some e),
              JSON 504 (H_error (Error e))]
           else
             [Log ErrorLevel ''Failed to fetch Autobrr stats'' (Some e),
              JSON 500 (H_error (Error e))]))"
  using assms by (simp add: GetAutobrrReleaseStats_def Let_def split: option.splits)

lemma GetAutobrrIRCStatus_miss:
  assumes "Query req ''instanceId'' \<noteq> []"
    and "cache_Get_irc h c (ircPrefix @ Query req ''instanceId'') = ((v, Some ge), c1)"
    and "fetchAndCacheIRC h c1 (Query req ''instanceId'') (ircPrefix @ Query req ''instanceId'')
          = ((p, err), c2, tr)"
  shows "GetAutobrrIRCStatus h c req =
    (c2, Cache_Get (ircPrefix @ Query req ''instanceId'') # tr @
      (case err of
         None \<Rightarrow> [Log DebugLevel ''Successfully retrieved and cached Autobrr IRC status'' None,
                   JSON 200 (IRCBody p)]
       | Some e \<Rightarrow>
           if Error e = ''service not configured'' then [JSON 200 (IRCBody (Slice []))]
           else if e = DeadlineExceeded \<or> e = Canceled then
             [Log ErrorLevel ''Request timeout while fetching Autobrr IRC status'' (Some e),
              JSON 504 (H_error (Error e))]
           else
             [Log ErrorLevel ''Failed to fetch Autobrr IRC status'' (Some e),
              JSON 500 (H_error (Error e))]))"
  using assms by (simp add: GetAutobrrIRCStatus_def Let_def split: option.splits)

lemma fetchAndCacheStats_unconfigured:
  assumes "db_GetServiceByInstanceID h i = (cfg, None)" and "cfg = None \<or> URL (the cfg) = []"
  shows "fetchAndCacheStats h c i k =
    ((0, Some (Errorf ''service not configured'')), c, [DB_GetServiceByInstanceID i])"
  using assms by (auto simp: fetchAndCacheStats_def)

lemma fetchAndCacheIRC_unconfigured:
  assumes "db_GetServiceByInstanceID h i = (cfg, None)" and "cfg = None \<or> URL (the cfg) = []"
  shows "fetchAndCacheIRC h c i k =
    ((nil, Some (Errorf ''service not configured'')), c, [DB_GetServiceByInstanceID i])"
  using assms by (auto simp: fetchAndCacheIRC_def)

subsection \<open>Runs on the memory store\<close>

lemma store_after_stats_eq:
  "store_after_stats = \<lparr>now = 0, entries = [''autobrr:stats:a'' \<mapsto>
     \<lparr>entry_value = StatsBody 42, storedAt = 0, expiresAt = 10000000000\<rparr>]\<rparr>"
  by (simp add: store_after_stats_def run_defs)

lemma store_after_irc_eq:
  "store_after_irc = \<lparr>now = 0, entries = [''autobrr:irc:a'' \<mapsto>
     \<lparr>entry_value = IRCBody (Slice [''irc.example.org'']), storedAt = 0, expiresAt = 5000000000\<rparr>]\<rparr>"
  by (simp add: store_after_irc_def run_defs)

subsection \<open>Cache expirations\<close>

lemma stats_ttls_fetchAndCacheStats:
  "stats_ttls (snd (snd (fetchAndCacheStats h c i k)))
    = (if snd (fst (fetchAndCacheStats h c i k)) = None then [autobrrStatsCacheDuration] else [])"
  by (simp add: fetchAndCacheStats_def split: prod.splits)

lemma irc_ttls_fetchAndCacheIRC:
  "irc_ttls (snd (snd (fetchAndCacheIRC h c i k)))
    = (if snd (fst (fetchAndCacheIRC h c i k)) = None then [autobrrIRCCacheDuration] else [])"
  by (simp add: fetchAndCacheIRC_def split: prod.splits)

text \<open>
  C8.  The expiration for release statistics is 10 seconds and the expiration for IRC
  status is 5 seconds: both are positive, at least one second and less than a minute,
  and the IRC expiration is strictly the shorter.  They are the expirations that
  \<^verbatim>\<open>fetchAndCacheStats\<close> and \<^verbatim>\<open>fetchAndCacheIRC\<close> pass to \<^verbatim>\<open>cache.Set\<close>: a call that returns
  a nil error has made exactly one \<^verbatim>\<open>Set\<close>, with that expiration.
\<close>

theorem cache_durations:
  "autobrrStatsCacheDuration = 10 * Second \<and> autobrrIRCCacheDuration = 5 * Second
   \<and> Second = 1000000000
   \<and> 0 < autobrrIRCCacheDuration \<and> 0 < autobrrStatsCacheDuration
   \<and> Second \<le> autobrrIRCCacheDuration \<and> autobrrStatsCacheDuration < Minute
   \<and> autobrrIRCCacheDuration < autobrrStatsCacheDuration
   \<and> stats_ttls (snd (snd (fetchAndCacheStats h c i k)))
       = (if snd (fst (fetchAndCacheStats h c i k)) = None then [autobrrStatsCacheDuration] else [])
   \<and> irc_ttls (snd (snd (fetchAndCacheIRC h c i k)))
       = (if snd (fst (fetchAndCacheIRC h c i k)) = None then [autobrrIRCCacheDuration] else [])"
proof -
  have "autobrrStatsCacheDuration = 10 * Second" "autobrrIRCCacheDuration = 5 * Second"
    "Second = 1000000000"
    by (simp_all only: autobrrStatsCacheDuration_def autobrrIRCCacheDuration_def Second_def)
  moreover have "0 < autobrrIRCCacheDuration" "0 < autobrrStatsCacheDuration"
    "Second \<le> autobrrIRCCacheDuration" "autobrrStatsCacheDuration < Minute"
    "autobrrIRCCacheDuration < autobrrStatsCacheDuration"
    by (simp_all add: autobrrStatsCacheDuration_def autobrrIRCCacheDuration_def Second_def
        Minute_def)
  ultimately show ?thesis
    using stats_ttls_fetchAndCacheStats [of h c i k] irc_ttls_fetchAndCacheIRC [of h c i k]
    by blast
qed

theorem cache_durations_witness:
  "stats_ttls (snd (snd (fetchAndCacheStats (memHandler db_configured stats_ok irc_ok)
      (NewMemoryStore 0) ''a'' ''autobrr:stats:a''))) = [10000000000]
   \<and> irc_ttls (snd (snd (fetchAndCacheIRC (memHandler db_configured stats_ok irc_ok)
      (NewMemoryStore 0) ''a'' ''autobrr:irc:a''))) = [5000000000]"
proof -
  have "snd (fst (fetchAndCacheStats (memHandler db_configured stats_ok irc_ok)
      (NewMemoryStore 0) ''a'' ''autobrr:stats:a'')) = None"
    by (simp add: run_defs)
  moreover have "snd (fst (fetchAndCacheIRC (memHandler db_configured stats_ok irc_ok)
      (NewMemoryStore 0) ''a'' ''autobrr:irc:a'')) = None"
    by (simp add: run_defs)
  ultimately show ?thesis
    using cache_durations [of "memHandler db_configured stats_ok irc_ok" "NewMemoryStore 0"
        "''a''" "''autobrr:stats:a''"]
      cache_durations [of "memHandler db_configured stats_ok irc_ok" "NewMemoryStore 0"
        "''a''" "''autobrr:irc:a''"]
    by simp
qed

subsection \<open>Rate limiters\<close>

text \<open>
  C7.  \<^verbatim>\<open>SetupRoutes\<close> constructs four limiters, each with a window, a maximum and a key
  prefix of its own.  The prefixes \<open>"api:"\<close>, \<open>"health:"\<close>, \<open>"auth:"\<close> and \<open>"tailscale:"\<close>
  are pairwise distinct, and none is a prefix of another.  The tailscale limiter has a
  window of two minutes and a maximum of 20, the API limiter a window of one minute and
  a maximum of 60: the tailscale window is strictly longer and its maximum strictly
  lower.
\<close>

theorem rate_limiter_configurations:
  "keyPrefix (apiRateLimiter st) = ''api:'' \<and> keyPrefix (healthRateLimiter st) = ''health:''
   \<and> keyPrefix (authRateLimiter st) = ''auth:''
   \<and> keyPrefix (tailscaleRateLimiter st) = ''tailscale:''
   \<and> distinct [keyPrefix (apiRateLimiter st), keyPrefix (healthRateLimiter st),
        keyPrefix (authRateLimiter st), keyPrefix (tailscaleRateLimiter st)]
   \<and> \<not> prefix (keyPrefix (apiRateLimiter st)) (keyPrefix (authRateLimiter st))
   \<and> \<not> prefix (keyPrefix (authRateLimiter st)) (keyPrefix (apiRateLimiter st))
   \<and> \<not> prefix (keyPrefix (apiRateLimiter st)) (keyPrefix (healthRateLimiter st))
   \<and> \<not> prefix (keyPrefix (healthRateLimiter st)) (keyPrefix (apiRateLimiter st))
   \<and> \<not> prefix (keyPrefix (apiRateLimiter st)) (keyPrefix (tailscaleRateLimiter st))
   \<and> \<not> prefix (keyPrefix (tailscaleRateLimiter st)) (keyPrefix (apiRateLimiter st))
   \<and> \<not> prefix (keyPrefix (healthRateLimiter st)) (keyPrefix (authRateLimiter st))
   \<and> \<not> prefix (keyPrefix (authRateLimiter st)) (keyPrefix (healthRateLimiter st))
   \<and> \<not> prefix (keyPrefix (healthRateLimiter st)) (keyPrefix (tailscaleRateLimiter st))
   \<and> \<not> prefix (keyPrefix (tailscaleRateLimiter st)) (keyPrefix (healthRateLimiter st))
   \<and> \<not> prefix (keyPrefix (authRateLimiter st)) (keyPrefix (tailscaleRateLimiter st))
   \<and> \<not> prefix (keyPrefix (tailscaleRateLimiter st)) (keyPrefix (authRateLimiter st))
   \<and> window (apiRateLimiter st) = Minute \<and> limit (apiRateLimiter st) = 60
   \<and> window (healthRateLimiter st) = Minute \<and> limit (healthRateLimiter st) = 30
   \<and> window (authRateLimiter st) = Minute \<and> limit (authRateLimiter st) = 30
   \<and> window (tailscaleRateLimiter st) = 2 * Minute \<and> limit (tailscaleRateLimiter st) = 20
   \<and> window (apiRateLimiter st) < window (tailscaleRateLimiter st)
   \<and> limit (tailscaleRateLimiter st) < limit (apiRateLimiter st)"
  by (simp add: apiRateLimiter_def healthRateLimiter_def authRateLimiter_def
      tailscaleRateLimiter_def NewRateLimiter_def Minute_def Second_def)

subsection \<open>A request without an instance identifier\<close>

text \<open>
  C9.  When the query parameter \<open>instanceId\<close> is absent or empty, both handlers log the
  error and respond with status 400 and the body \<open>{"error": "Instance ID is required"}\<close>.
  That is their whole trace: no call of the cache store, of the configuration database
  or of the service adapter is made, and the cache store is left as it was.
\<close>

theorem missing_instance_id:
  assumes "req ''instanceId'' = None \<or> req ''instanceId'' = Some []"
  shows "GetAutobrrReleaseStats h c req =
      (c, [Log ErrorLevel ''No instance ID provided'' None,
           JSON 400 (H_error ''Instance ID is required'')])
    \<and> GetAutobrrIRCStatus h c req =
      (c, [Log ErrorLevel ''No instance ID provided'' None,
           JSON 400 (H_error ''Instance ID is required'')])
    \<and> responses (snd (GetAutobrrReleaseStats h c req)) = [(400, H_error ''Instance ID is required'')]
    \<and> responses (snd (GetAutobrrIRCStatus h c req)) = [(400, H_error ''Instance ID is required'')]
    \<and> filter consults (snd (GetAutobrrReleaseStats h c req)) = []
    \<and> filter consults (snd (GetAutobrrIRCStatus h c req)) = []"
proof -
  from assms have "Query req ''instanceId'' = []"
    by (auto simp: Query_def)
  then show ?thesis
    by (simp add: GetAutobrrReleaseStats_def GetAutobrrIRCStatus_def)
qed

theorem missing_instance_id_witness:
  "req_none ''instanceId'' = None \<and> req_blank ''instanceId'' = Some []
   \<and> GetAutobrrReleaseStats (memHandler db_configured stats_ok irc_ok) store_after_stats req_none =
      (store_after_stats, [Log ErrorLevel ''No instance ID provided'' None,
           JSON 400 (H_error ''Instance ID is required'')])
   \<and> GetAutobrrIRCStatus (memHandler db_configured stats_ok irc_ok) store_after_stats req_blank =
      (store_after_stats, [Log ErrorLevel ''No instance ID provided'' None,
           JSON 400 (H_error ''Instance ID is required'')])"
proof -
  have n: "req_none ''instanceId'' = None"
    by (simp add: req_none_def)
  have b: "req_blank ''instanceId'' = Some []"
    by (simp add: req_blank_def)
  show ?thesis
    using n b
      missing_instance_id [of req_none "memHandler db_configured stats_ok irc_ok" store_after_stats]
      missing_instance_id [of req_blank "memHandler db_configured stats_ok irc_ok" store_after_stats]
    by simp
qed

subsection \<open>Failed fetches\<close>

text \<open>
  C10.  Whenever \<^verbatim>\<open>fetchAndCacheStats\<close> returns a non-nil error, the payload it returns is
  the zero \<^verbatim>\<open>AutobrrStats\<close> value, whatever the adapter returned beside its error; whenever
  \<^verbatim>\<open>fetchAndCacheIRC\<close> returns a non-nil error, the payload it returns is the nil slice.
\<close>

theorem error_payload_is_zero:
  "(snd (fst (fetchAndCacheStats h c i k)) \<noteq> None \<longrightarrow> fst (fst (fetchAndCacheStats h c i k)) = 0)
   \<and> (snd (fst (fetchAndCacheIRC h c i k)) \<noteq> None \<longrightarrow> fst (fst (fetchAndCacheIRC h c i k)) = nil)"
  by (simp add: fetchAndCacheStats_def fetchAndCacheIRC_def split: prod.splits)

theorem error_payload_is_zero_witness:
  "service_GetReleaseStats (memHandler db_configured stats_timeout irc_timeout) ''http://autobrr:7474'' ''key''
     = (7, Some DeadlineExceeded)
   \<and> service_GetIRCStatus (memHandler db_configured stats_timeout irc_timeout) ''http://autobrr:7474'' ''key''
     = (Slice [''partial''], Some Canceled)
   \<and> fst (fetchAndCacheStats (memHandler db_configured stats_timeout irc_timeout)
        (NewMemoryStore 0) ''a'' ''autobrr:stats:a'') = (0, Some DeadlineExceeded)
   \<and> fst (fetchAndCacheIRC (memHandler db_configured stats_timeout irc_timeout)
        (NewMemoryStore 0) ''a'' ''autobrr:irc:a'') = (nil, Some Canceled)"
proof -
  have s: "snd (fst (fetchAndCacheStats (memHandler db_configured stats_timeout irc_timeout)
        (NewMemoryStore 0) ''a'' ''autobrr:stats:a'')) = Some DeadlineExceeded"
    by (simp add: run_defs)
  have i: "snd (fst (fetchAndCacheIRC (memHandler db_configured stats_timeout irc_timeout)
        (NewMemoryStore 0) ''a'' ''autobrr:irc:a'')) = Some Canceled"
    by (simp add: run_defs)
  have m: "service_GetReleaseStats (memHandler db_configured stats_timeout irc_timeout) ''http://autobrr:7474'' ''key''
     = (7, Some DeadlineExceeded)"
    "service_GetIRCStatus (memHandler db_configured stats_timeout irc_timeout) ''http://autobrr:7474'' ''key''
     = (Slice [''partial''], Some Canceled)"
    by (simp_all add: memHandler_def stats_timeout_def irc_timeout_def)
  show ?thesis
    using s i m
      error_payload_is_zero [of "memHandler db_configured stats_timeout irc_timeout"
        "NewMemoryStore 0" "''a''" "''autobrr:stats:a''"]
      error_payload_is_zero [of "memHandler db_configured stats_timeout irc_timeout"
        "NewMemoryStore 0" "''a''" "''autobrr:irc:a''"]
    by (simp add: prod_eq_iff)
qed

text \<open>
  C5.  Whenever \<^verbatim>\<open>fetchAndCacheStats\<close> or \<^verbatim>\<open>fetchAndCacheIRC\<close> returns a non-nil error
  (the lookup of the configuration failed, the service is not configured, or the
  adapter failed), its trace has no \<^verbatim>\<open>cache.Set\<close> and no other call of the cache store,
  and the cache store is as it was before the call.
\<close>

theorem errors_are_not_cached:
  "(snd (fst (fetchAndCacheStats h c i k)) \<noteq> None \<longrightarrow>
      fst (snd (fetchAndCacheStats h c i k)) = c
      \<and> filter is_Cache_Set (snd (snd (fetchAndCacheStats h c i k))) = []
      \<and> cache_keys (snd (snd (fetchAndCacheStats h c i k))) = [])
   \<and> (snd (fst (fetchAndCacheIRC h c i k)) \<noteq> None \<longrightarrow>
      fst (snd (fetchAndCacheIRC h c i k)) = c
      \<and> filter is_Cache_Set (snd (snd (fetchAndCacheIRC h c i k))) = []
      \<and> cache_keys (snd (snd (fetchAndCacheIRC h c i k))) = [])"
  by (simp add: fetchAndCacheStats_def fetchAndCacheIRC_def split: prod.splits)

theorem errors_are_not_cached_witness:
  "snd (fst (fetchAndCacheStats (memHandler db_failing stats_ok irc_ok)
      store_after_irc ''a'' ''autobrr:stats:a'')) = Some (Errorf ''database is locked'')
   \<and> fst (snd (fetchAndCacheStats (memHandler db_failing stats_ok irc_ok)
      store_after_irc ''a'' ''autobrr:stats:a'')) = store_after_irc
   \<and> snd (fst (fetchAndCacheStats (memHandler db_configured stats_ok irc_ok)
      store_after_irc ''b'' ''autobrr:stats:b'')) = Some (Errorf ''service not configured'')
   \<and> fst (snd (fetchAndCacheStats (memHandler db_configured stats_ok irc_ok)
      store_after_irc ''b'' ''autobrr:stats:b'')) = store_after_irc
   \<and> snd (fst (fetchAndCacheIRC (memHandler db_configured stats_ok irc_failing)
      store_after_stats ''a'' ''autobrr:irc:a'')) = Some (Errorf ''unexpected status 502'')
   \<and> fst (snd (fetchAndCacheIRC (memHandler db_configured stats_ok irc_failing)
      store_after_stats ''a'' ''autobrr:irc:a'')) = store_after_stats"
proof -
  have a: "snd (fst (fetchAndCacheStats (memHandler db_failing stats_ok irc_ok)
      store_after_irc ''a'' ''autobrr:stats:a'')) = Some (Errorf ''database is locked'')"
    by (simp add: run_defs)
  have b: "snd (fst (fetchAndCacheStats (memHandler db_configured stats_ok irc_ok)
      store_after_irc ''b'' ''autobrr:stats:b'')) = Some (Errorf ''service not configured'')"
    by (simp add: run_defs)
  have c: "snd (fst (fetchAndCacheIRC (memHandler db_configured stats_ok irc_failing)
      store_after_stats ''a'' ''autobrr:irc:a'')) = Some (Errorf ''unexpected status 502'')"
    by (simp add: run_defs)
  show ?thesis
    using a b c
      errors_are_not_cached [of "memHandler db_failing stats_ok irc_ok" store_after_irc
        "''a''" "''autobrr:stats:a''"]
      errors_are_not_cached [of "memHandler db_configured stats_ok irc_ok" store_after_irc
        "''b''" "''autobrr:stats:b''"]
      errors_are_not_cached [of "memHandler db_configured stats_ok irc_failing" store_after_stats
        "''a''" "''autobrr:irc:a''"]
    by simp
qed

subsection \<open>Error responses on a miss\<close>

lemma stats_failure_status:
  assumes i: "Query req ''instanceId'' \<noteq> []"
    and g: "snd (fst (cache_Get_stats h c (statsPrefix @ Query req ''instanceId''))) \<noteq> None"
    and f: "snd (fst (fetchAndCacheStats h
            (snd (cache_Get_stats h c (statsPrefix @ Query req ''instanceId'')))
            (Query req ''instanceId'') (statsPrefix @ Query req ''instanceId''))) = Some e"
    and n: "Error e \<noteq> ''service not configured''"
  shows "responses (snd (GetAutobrrReleaseStats h c req))
          = [(if e = DeadlineExceeded \<or> e = Canceled then 504 else 500, H_error (Error e))]"
proof -
  let ?i = "Query req ''instanceId''"
  let ?k = "statsPrefix @ ?i"
  obtain v ge c1 where g': "cache_Get_stats h c ?k = ((v, Some ge), c1)"
    using g by (cases "cache_Get_stats h c ?k") auto
  obtain p c2 tr where f': "fetchAndCacheStats h c1 ?i ?k = ((p, Some e), c2, tr)"
    using f g' by (cases "fetchAndCacheStats h c1 ?i ?k") auto
  from responses_fetchAndCacheStats [of h c1 ?i ?k] f' have r: "responses tr = []"
    by simp
  show ?thesis
    using n r by (simp add: GetAutobrrReleaseStats_miss [OF i g' f'] responses_append)
qed

lemma irc_failure_status:
  assumes i: "Query req ''instanceId'' \<noteq> []"
    and g: "snd (fst (cache_Get_irc h c (ircPrefix @ Query req ''instanceId''))) \<noteq> None"
    and f: "snd (fst (fetchAndCacheIRC h
            (snd (cache_Get_irc h c (ircPrefix @ Query req ''instanceId'')))
            (Query req ''instanceId'') (ircPrefix @ Query req ''instanceId''))) = Some e"
    and n: "Error e \<noteq> ''service not configured''"
  shows "responses (snd (GetAutobrrIRCStatus h c req))
          = [(if e = DeadlineExceeded \<or> e = Canceled then 504 else 500, H_error (Error e))]"
proof -
  let ?i = "Query req ''instanceId''"
  let ?k = "ircPrefix @ ?i"
  obtain v ge c1 where g': "cache_Get_irc h c ?k = ((v, Some ge), c1)"
    using g by (cases "cache_Get_irc h c ?k") auto
  obtain p c2 tr where f': "fetchAndCacheIRC h c1 ?i ?k = ((p, Some e), c2, tr)"
    using f g' by (cases "fetchAndCacheIRC h c1 ?i ?k") auto
  from responses_fetchAndCacheIRC [of h c1 ?i ?k] f' have r: "responses tr = []"
    by simp
  show ?thesis
    using n r by (simp add: GetAutobrrIRCStatus_miss [OF i g' f'] responses_append)
qed

text \<open>
  C2.  On a request with an instance identifier whose \<^verbatim>\<open>cache.Get\<close> returns an error
  (a miss), when the fetch returns an error whose message is not
  \<open>"service not configured"\<close>, the handler writes exactly one response: status 504 when
  the error is \<^verbatim>\<open>context.DeadlineExceeded\<close> or \<^verbatim>\<open>context.Canceled\<close>, status 500 for every
  other error, and in both cases the body \<open>{"error": message}\<close> with the message of the
  error.  This holds for the statistics handler and for the IRC handler.
\<close>

theorem fetch_failure_status:
  "(Query req ''instanceId'' \<noteq> []
     \<and> snd (fst (cache_Get_stats h c (statsPrefix @ Query req ''instanceId''))) \<noteq> None
     \<and> snd (fst (fetchAndCacheStats h
            (snd (cache_Get_stats h c (statsPrefix @ Query req ''instanceId'')))
            (Query req ''instanceId'') (statsPrefix @ Query req ''instanceId''))) = Some e
     \<and> Error e \<noteq> ''service not configured''
     \<longrightarrow> responses (snd (GetAutobrrReleaseStats h c req))
          = [(if e = DeadlineExceeded \<or> e = Canceled then 504 else 500, H_error (Error e))])
   \<and> (Query req ''instanceId'' \<noteq> []
     \<and> snd (fst (cache_Get_irc h c (ircPrefix @ Query req ''instanceId''))) \<noteq> None
     \<and> snd (fst (fetchAndCacheIRC h
            (snd (cache_Get_irc h c (ircPrefix @ Query req ''instanceId'')))
            (Query req ''instanceId'') (ircPrefix @ Query req ''instanceId''))) = Some e'
     \<and> Error e' \<noteq> ''service not configured''
     \<longrightarrow> responses (snd (GetAutobrrIRCStatus h c req))
          = [(if e' = DeadlineExceeded \<or> e' = Canceled then 504 else 500, H_error (Error e'))])"
  using stats_failure_status [of req h c e] irc_failure_status [of req h c e']
  by blast

theorem fetch_failure_status_witness:
  "responses (snd (GetAutobrrReleaseStats (memHandler db_configured stats_timeout irc_failing)
      (NewMemoryStore 0) req_a)) = [(504, H_error ''context deadline exceeded'')]
   \<and> responses (snd (GetAutobrrIRCStatus (memHandler db_configured stats_timeout irc_failing)
      (NewMemoryStore 0) req_a)) = [(500, H_error ''unexpected status 502'')]"
proof -
  let ?h = "memHandler db_configured stats_timeout irc_failing"
  let ?c = "NewMemoryStore 0 :: (nat, string) MemoryStore"
  have q: "Query req_a ''instanceId'' = ''a''"
    by (simp add: Query_def req_a_def)
  have gs: "cache_Get_stats ?h ?c (statsPrefix @ ''a'') = ((0, Some (Errorf ''cache miss'')), ?c)"
    by (simp add: memHandler_def mem_Get_stats_def mem_lookup_def NewMemoryStore_def)
  have gi: "cache_Get_irc ?h ?c (ircPrefix @ ''a'') = ((nil, Some (Errorf ''cache miss'')), ?c)"
    by (simp add: memHandler_def mem_Get_irc_def mem_lookup_def NewMemoryStore_def)
  have fs: "snd (fst (fetchAndCacheStats ?h ?c ''a'' (statsPrefix @ ''a''))) = Some DeadlineExceeded"
    by (simp add: fetchAndCacheStats_def memHandler_def db_configured_def stats_timeout_def)
  have fi: "snd (fst (fetchAndCacheIRC ?h ?c ''a'' (ircPrefix @ ''a'')))
      = Some (Errorf ''unexpected status 502'')"
    by (simp add: fetchAndCacheIRC_def memHandler_def db_configured_def irc_failing_def)
  show ?thesis
    using fetch_failure_status [of req_a ?h ?c DeadlineExceeded "Errorf ''unexpected status 502''"]
    by (simp add: q gs gi fs fi)
qed

end
